theory Spec2Isabelle
  imports Main
begin

section \<open>Run-time values\<close>

text \<open>
  The service receives request bodies as parsed JSON and hands database rows around as
  plain objects; the TypeScript annotations (\<open>type Media\<close>, \<open>as Media\<close>) are erased
  at run time. An object is a map from property names to JSON values; a property that is
  absent reads as \<open>undefined\<close>, which is \<open>None\<close> here. Numbers are the integer-valued
  ones (identifiers, pixel sizes, byte counts); \<open>NaN\<close> never reaches the service because
  every route rejects it first.
\<close>

datatype jsval =
    JNull
  | JBool bool
  | JNum int
  | JStr string
  | JArr "jsval list"
  | JObj "(string \<times> jsval) list"

type_synonym obj = "string \<rightharpoonup> jsval"

text \<open>\<open>typeof v\<close> and the truthiness test of \<open>if (v)\<close> and \<open>!v\<close>.\<close>

fun typeof :: "jsval option \<Rightarrow> string" where
  "typeof None = ''undefined''"
| "typeof (Some JNull) = ''object''"
| "typeof (Some (JBool b)) = ''boolean''"
| "typeof (Some (JNum n)) = ''number''"
| "typeof (Some (JStr s)) = ''string''"
| "typeof (Some (JArr xs)) = ''object''"
| "typeof (Some (JObj kvs)) = ''object''"

fun truthy :: "jsval option \<Rightarrow> bool" where
  "truthy None = False"
| "truthy (Some JNull) = False"
| "truthy (Some (JBool b)) = b"
| "truthy (Some (JNum n)) = (n \<noteq> 0)"
| "truthy (Some (JStr s)) = (s \<noteq> [])"
| "truthy (Some (JArr xs)) = True"
| "truthy (Some (JObj kvs)) = True"

section \<open>model.ts: status codes, envelope, error classes\<close>

datatype HttpStatusCode =
    OK
  | Created
  | BadRequest
  | Unauthorized
  | Forbidden
  | NotFound
  | InternalServerError

text \<open>The numeric value of each member of the enum.\<close>

fun status_number :: "HttpStatusCode \<Rightarrow> nat" where
  "status_number OK = 200"
| "status_number Created = 201"
| "status_number BadRequest = 400"
| "status_number Unauthorized = 401"
| "status_number Forbidden = 403"
| "status_number NotFound = 404"
| "status_number InternalServerError = 500"

text \<open>
  The three error classes each extend \<open>Error\<close> directly; \<open>Error\<close> stands for every
  other exception (a plain \<open>new Error(...)\<close>, a driver error, a \<open>TypeError\<close>). Each
  carries its message.
\<close>

datatype js_error =
    NotFoundError string
  | ValidationError string
  | UnauthorizedError string
  | Error string


type_synonym Media = obj

text \<open>What a handler can put in the \<open>data\<close> field of the envelope.\<close>

datatype payload =
    PUndefined
  | PNull
  | PMedia Media
  | PMediaList "Media list"
  | PMessage string

record ApiResponse =
  data :: payload
  code :: nat
  msg :: "string option"

text \<open>An HTTP response: the status line set by \<open>res.status\<close> and the JSON body.\<close>

record response =
  status :: nat
  body :: ApiResponse

section \<open>The table, the upload directory and the console\<close>

text \<open>
  sqlite/schema.ts declares the table \<open>media\<close>: \<open>id\<close> is an auto-incrementing integer
  primary key, \<open>deletedAt\<close> is the only nullable column, \<open>createdAt\<close> and \<open>updatedAt\<close>
  default to \<open>CURRENT_TIMESTAMP\<close>, \<open>storedFileName\<close> is unique. No column has an
  update hook.
\<close>

definition Media_columns :: "string list" where
  "Media_columns =
     [''id'', ''originalFileName'', ''storedFileName'', ''mimeType'', ''width'',
      ''height'', ''fileSize'', ''createdAt'', ''updatedAt'', ''deletedAt'']"

definition notNull_columns :: "string list" where
  "notNull_columns =
     [''originalFileName'', ''storedFileName'', ''mimeType'', ''width'',
      ''height'', ''fileSize'', ''createdAt'', ''updatedAt'']"

text \<open>
  The world a request runs in: the rows of the table in the order a select without
  \<open>ORDER BY\<close> returns them (by identifier), the largest identifier the table has handed
  out so far (SQLite's \<open>sqlite_sequence\<close>), the files on disk keyed by their normalised
  path relative to the working directory (an upload is \<open>uploads/name\<close>), and the lines
  written with \<open>console.error\<close>.
\<close>

record world =
  table :: "Media list"
  sqlite_sequence :: int
  uploads :: "string \<rightharpoonup> string"
  console :: "string list"

text \<open>
  \<open>eq(Media.id, v)\<close>: the row's identifier equals the bound number. Identifiers are
  compared as numbers only: a bound text that SQLite's integer affinity would read as a
  number (\<open>"5"\<close>) matches no row here.
\<close>

definition eq_id :: "jsval option \<Rightarrow> Media \<Rightarrow> bool" where
  "eq_id v r = (case v of Some (JNum n) \<Rightarrow> r ''id'' = Some (JNum n) | _ \<Rightarrow> False)"

text \<open>\<open>db.select().from(Media).where(p)\<close>.\<close>

definition db_select :: "(Media \<Rightarrow> bool) \<Rightarrow> Media list \<Rightarrow> Media list" where
  "db_select p rows = filter p rows"

text \<open>
  \<open>.set(values)\<close> assigns the properties of \<open>values\<close> that name a column and are not
  \<open>undefined\<close>; every other column keeps its value. A value is stored as it is passed:
  the conversion that SQLite's column affinity applies to a text that reads as a number
  is not modelled.
\<close>

definition assign :: "obj \<Rightarrow> Media \<Rightarrow> Media" where
  "assign values r = r ++ (values |` set Media_columns)"

text \<open>\<open>db.update(Media).set(values).where(p)\<close>: the table afterwards.\<close>

definition db_update :: "obj \<Rightarrow> (Media \<Rightarrow> bool) \<Rightarrow> Media list \<Rightarrow> Media list" where
  "db_update values p rows = map (\<lambda>r. if p r then assign values r else r) rows"

text \<open>\<open>.returning()\<close> of that update: the rows it changed, as they are afterwards.\<close>

definition db_update_returning :: "obj \<Rightarrow> (Media \<Rightarrow> bool) \<Rightarrow> Media list \<Rightarrow> Media list" where
  "db_update_returning values p rows = map (assign values) (filter p rows)"

text \<open>\<open>db.delete(Media).where(p)\<close>: the table afterwards, and the driver's result.\<close>

record delete_result =
  rowsAffected :: nat

definition db_delete :: "(Media \<Rightarrow> bool) \<Rightarrow> Media list \<Rightarrow> Media list" where
  "db_delete p rows = filter (\<lambda>r. \<not> p r) rows"

definition db_delete_result :: "(Media \<Rightarrow> bool) \<Rightarrow> Media list \<Rightarrow> delete_result" where
  "db_delete_result p rows = \<lparr>rowsAffected = length (filter p rows)\<rparr>"

text \<open>
  The array destructuring \<open>const [x] = rows\<close>: the first element, or \<open>undefined\<close>.
\<close>

fun first :: "'a list \<Rightarrow> 'a option" where
  "first [] = None"
| "first (x # xs) = Some x"

section \<open>media/service.ts\<close>

text \<open>
  \<open>softDelete\<close> reads the clock twice (\<open>new Date().toISOString()\<close>); \<open>now1\<close> and
  \<open>now2\<close> are the two readings, in that order.
\<close>

definition softDelete ::
  "string \<Rightarrow> string \<Rightarrow> int \<Rightarrow> world \<Rightarrow> (js_error + Media option) \<times> world" where
  "softDelete now1 now2 i w =
     (case first (take 1 (db_select (eq_id (Some (JNum i))) (table w))) of
        None \<Rightarrow> (Inl (NotFoundError ''Media not found''), w)
      | Some currentRecord \<Rightarrow>
          if currentRecord ''deletedAt'' \<noteq> Some JNull
          then (Inl (ValidationError ''Record is already deleted''), w)
          else
            let values = [''deletedAt'' \<mapsto> JStr now1, ''updatedAt'' \<mapsto> JStr now2];
                p = eq_id (Some (JNum i))
            in (Inr (first (db_update_returning values p (table w))),
                w\<lparr>table := db_update values p (table w)\<rparr>))"

definition restore ::
  "string \<Rightarrow> int \<Rightarrow> world \<Rightarrow> (js_error + Media option) \<times> world" where
  "restore now i w =
     (case first (take 1 (db_select (eq_id (Some (JNum i))) (table w))) of
        None \<Rightarrow> (Inl (NotFoundError ''Media not found''), w)
      | Some currentRecord \<Rightarrow>
          if currentRecord ''deletedAt'' = Some JNull
          then (Inl (ValidationError ''Record is not deleted''), w)
          else
            let values = [''deletedAt'' \<mapsto> JNull, ''updatedAt'' \<mapsto> JStr now];
                p = eq_id (Some (JNum i))
            in (Inr (first (db_update_returning values p (table w))),
                w\<lparr>table := db_update values p (table w)\<rparr>))"

text \<open>
  The three validators throw a plain \<open>Error\<close>. \<open>validate\<close> is not called anywhere.
\<close>

definition validate :: "obj \<Rightarrow> js_error + unit" where
  "validate d =
     (if \<not> truthy (d ''originalFileName'') then Inl (Error ''Missing originalFileName'')
      else if \<not> truthy (d ''storedFileName'') then Inl (Error ''Missing storedFileName'')
      else if \<not> truthy (d ''mimeType'') then Inl (Error ''Missing mimeType'')
      else if \<not> truthy (d ''width'') then Inl (Error ''Missing width'')
      else if \<not> truthy (d ''height'') then Inl (Error ''Missing height'')
      else if \<not> truthy (d ''fileSize'') then Inl (Error ''Missing fileSize'')
      else Inr ())"

definition validateCreate :: "obj \<Rightarrow> js_error + unit" where
  "validateCreate d =
     (if \<not> truthy (d ''originalFileName'') then Inl (Error ''Missing originalFileName'')
      else if \<not> truthy (d ''storedFileName'') then Inl (Error ''Missing storedFileName'')
      else if \<not> truthy (d ''mimeType'') then Inl (Error ''Missing mimeType'')
      else if \<not> truthy (d ''width'') then Inl (Error ''Missing width'')
      else if \<not> truthy (d ''height'') then Inl (Error ''Missing height'')
      else if \<not> truthy (d ''fileSize'') then Inl (Error ''Missing fileSize'')
      else Inr ())"

definition validateUpdate :: "obj \<Rightarrow> js_error + unit" where
  "validateUpdate d =
     (if d ''width'' \<noteq> None \<and> typeof (d ''width'') \<noteq> ''number''
      then Inl (Error ''Width must be a number'')
      else if d ''height'' \<noteq> None \<and> typeof (d ''height'') \<noteq> ''number''
      then Inl (Error ''Height must be a number'')
      else Inr ())"

definition getAll :: "world \<Rightarrow> Media list" where
  "getAll w = table w"

definition getById :: "int \<Rightarrow> world \<Rightarrow> Media list" where
  "getById i w = db_select (eq_id (Some (JNum i))) (table w)"

text \<open>
  \<open>db.insert(Media).values(v).returning()\<close> under the schema. A column that \<open>v\<close> leaves
  out takes its default (\<open>ts\<close> is the database's \<open>CURRENT_TIMESTAMP\<close>) or NULL; an
  identifier that is absent or NULL is the next one of the sequence, a number is taken as
  it is. The primary key, the unique column and the NOT NULL columns are checked on the
  new row, and a violation is a driver error that leaves the table as it was. The new row
  takes its place by identifier.
\<close>

definition id_below :: "int \<Rightarrow> Media \<Rightarrow> bool" where
  "id_below n r = (case r ''id'' of Some (JNum k) \<Rightarrow> k < n | _ \<Rightarrow> False)"

definition next_id :: "world \<Rightarrow> int" where
  "next_id w =
     fold (\<lambda>r m. case r ''id'' of Some (JNum n) \<Rightarrow> max m n | _ \<Rightarrow> m)
       (table w) (sqlite_sequence w) + 1"

definition is_null :: "jsval option \<Rightarrow> bool" where
  "is_null v = (v = None \<or> v = Some JNull)"

definition db_insert :: "string \<Rightarrow> obj \<Rightarrow> world \<Rightarrow> (js_error + Media list) \<times> world" where
  "db_insert ts v w =
     (let defaults = (\<lambda>c. if c \<in> set Media_columns then Some JNull else None)
            (''createdAt'' \<mapsto> JStr ts, ''updatedAt'' \<mapsto> JStr ts);
          given = v |` set Media_columns
      in if \<not> is_null (given ''id'') \<and> typeof (given ''id'') \<noteq> ''number''
         then (Inl (Error ''datatype mismatch''), w)
         else
           let n = (case given ''id'' of Some (JNum k) \<Rightarrow> k | _ \<Rightarrow> next_id w);
               row = (defaults ++ given)(''id'' \<mapsto> JNum n)
           in if list_ex (\<lambda>c. is_null (row c)) notNull_columns
              then (Inl (Error ''NOT NULL constraint failed''), w)
              else if list_ex (\<lambda>r. r ''id'' = Some (JNum n)) (table w)
              then (Inl (Error ''UNIQUE constraint failed: media.id''), w)
              else if list_ex (\<lambda>r. r ''storedFileName'' = row ''storedFileName'') (table w)
              then (Inl (Error ''UNIQUE constraint failed: media.stored_file_name''), w)
              else (Inr [row],
                    w\<lparr>table := takeWhile (id_below n) (table w) @ row
                                 # dropWhile (id_below n) (table w),
                      sqlite_sequence := max (sqlite_sequence w) n\<rparr>))"

definition create :: "string \<Rightarrow> obj \<Rightarrow> world \<Rightarrow> (js_error + Media option) \<times> world" where
  "create ts model w =
     (case validateCreate model of
        Inl e \<Rightarrow> (Inl e, w)
      | Inr u \<Rightarrow>
          (case db_insert ts model w of
             (Inl e, w') \<Rightarrow> (Inl e, w')
           | (Inr rows, w') \<Rightarrow> (Inr (first rows), w')))"

text \<open>
  \<open>update\<close> copies the model, deletes \<open>id\<close> from the copy and assigns what is left to
  the rows whose identifier is \<open>model.id\<close>. When the copy has no column left to
  assign, the call fails with a plain \<open>Error\<close> and no row changes: the query builder
  throws \<open>No values to set\<close> for an empty object. What the driver refuses on the
  assigned values (NULL for a NOT NULL column, a second row with the same
  \<open>storedFileName\<close>) is not part of this model.
\<close>

definition update :: "obj \<Rightarrow> world \<Rightarrow> (js_error + Media option) \<times> world" where
  "update model w =
     (case validateUpdate model of
        Inl e \<Rightarrow> (Inl e, w)
      | Inr u \<Rightarrow>
          let updates = model(''id'' := None);
              p = eq_id (model ''id'');
              result = db_update_returning updates p (table w);
              w' = w\<lparr>table := db_update updates p (table w)\<rparr>
          in if list_all (\<lambda>c. updates c = None) Media_columns
             then (Inl (Error ''No values to set''), w)
             else if length result = 0
             then (Inl (NotFoundError ''No record found with the provided id''), w')
             else (Inr (first result), w'))"

text \<open>
  Node's POSIX \<open>path.join\<close> of two strings: the arguments that are not empty are joined
  with a slash and the result is normalised. \<open>normalizeString\<close> walks the segments
  between slashes; an empty segment and \<open>.\<close> are dropped, \<open>..\<close> removes the segment
  before it, or stays when there is none to remove and the path is relative.
\<close>

fun split_path :: "string \<Rightarrow> string list" where
  "split_path [] = [[]]"
| "split_path (c # cs) =
     (if c = CHR ''/'' then [] # split_path cs
      else (case split_path cs of [] \<Rightarrow> [[c]] | seg # segs \<Rightarrow> (c # seg) # segs))"

fun normalizeString :: "bool \<Rightarrow> string list \<Rightarrow> string list \<Rightarrow> string list" where
  "normalizeString allowAboveRoot res [] = res"
| "normalizeString allowAboveRoot res (seg # segs) =
     (if seg = [] \<or> seg = ''.'' then normalizeString allowAboveRoot res segs
      else if seg = ''..'' then
        (if res \<noteq> [] \<and> last res \<noteq> ''..''
         then normalizeString allowAboveRoot (butlast res) segs
         else if allowAboveRoot then normalizeString allowAboveRoot (res @ [''..'']) segs
         else normalizeString allowAboveRoot res segs)
      else normalizeString allowAboveRoot (res @ [seg]) segs)"

fun join_segments :: "string list \<Rightarrow> string" where
  "join_segments [] = []"
| "join_segments [seg] = seg"
| "join_segments (seg # seg' # segs) = seg @ ''/'' @ join_segments (seg' # segs)"

definition normalize :: "string \<Rightarrow> string" where
  "normalize p =
     (if p = [] then ''.''
      else
        let isAbsolute = (hd p = CHR ''/'');
            trailingSeparator = (last p = CHR ''/'');
            q = join_segments (normalizeString (\<not> isAbsolute) [] (split_path p))
        in if q = [] then (if isAbsolute then ''/'' else if trailingSeparator then ''./'' else ''.'')
           else (if isAbsolute then ''/'' else []) @ q @ (if trailingSeparator then ''/'' else []))"

definition path_join :: "string \<Rightarrow> string \<Rightarrow> string" where
  "path_join a b =
     (let joined = (if a = [] then b else if b = [] then a else a @ ''/'' @ b)
      in if joined = [] then ''.'' else normalize joined)"

text \<open>
  \<open>path.join('./uploads', record.storedFileName)\<close>; a value that is not a string makes
  \<open>path.join\<close> throw a \<open>TypeError\<close>.
\<close>

definition path_join_uploads :: "jsval option \<Rightarrow> js_error + string" where
  "path_join_uploads v =
     (case v of
        Some (JStr name) \<Rightarrow> Inr (path_join ''./uploads'' name)
      | _ \<Rightarrow> Inl (Error ''The path argument must be of type string''))"

text \<open>
  \<open>fs.unlink\<close>: it fails with \<open>ENOENT\<close> when the file is not there, and with the code
  \<open>fault\<close> when the call is refused for another reason (permissions, a busy file, a
  path that is a directory or is not a valid path); otherwise the file is gone. The
  failure is the error's \<open>code\<close>.
\<close>

definition fs_unlink :: "string option \<Rightarrow> string \<Rightarrow> (string \<rightharpoonup> string) \<Rightarrow> string + (string \<rightharpoonup> string)" where
  "fs_unlink fault filePath files =
     (case fault of
        Some c \<Rightarrow> Inl c
      | None \<Rightarrow> if files filePath = None then Inl ''ENOENT'' else Inr (files(filePath := None)))"

definition remove :: "string option \<Rightarrow> int \<Rightarrow> world \<Rightarrow> (js_error + delete_result) \<times> world" where
  "remove fault i w =
     (case first (take 1 (db_select (eq_id (Some (JNum i))) (table w))) of
        None \<Rightarrow> (Inl (NotFoundError ''Media not found''), w)
      | Some record \<Rightarrow>
          let deleteResult = db_delete_result (eq_id (Some (JNum i))) (table w);
              w1 = w\<lparr>table := db_delete (eq_id (Some (JNum i))) (table w)\<rparr>
          in (case path_join_uploads (record ''storedFileName'') of
                Inl e \<Rightarrow> (Inl e, w1)
              | Inr filePath \<Rightarrow>
                  (case fs_unlink fault filePath (uploads w1) of
                     Inr files \<Rightarrow> (Inr deleteResult, w1\<lparr>uploads := files\<rparr>)
                   | Inl c \<Rightarrow>
                       if c \<noteq> ''ENOENT''
                       then (Inr deleteResult,
                             w1\<lparr>console := console w1 @ [''Failed to delete file: '' @ filePath]\<rparr>)
                       else (Inr deleteResult, w1))))"

text \<open>
  The file object of multer: what the file filter and the storage see of an incoming
  part, and what the route gets once the part is stored.
\<close>

record multipart_file =
  originalname :: string
  mimetype :: string

record UploadedFile = multipart_file +
  filename :: string
  size_bytes :: int
  path :: string

text \<open>
  \<open>getImageDimensions\<close> reads the stored file and asks the image-size library, here the
  parameter \<open>imageSize\<close>, for an object with \<open>width\<close> and \<open>height\<close>.
\<close>

definition getImageDimensions ::
  "(string \<Rightarrow> js_error + obj) \<Rightarrow> UploadedFile \<Rightarrow> world \<Rightarrow> js_error + obj" where
  "getImageDimensions imageSize file w =
     (case uploads w (path file) of
        None \<Rightarrow> Inl (Error ''ENOENT: no such file or directory'')
      | Some buffer \<Rightarrow>
          (case imageSize buffer of
             Inl e \<Rightarrow> Inl e
           | Inr dimensions \<Rightarrow>
               if \<not> truthy (dimensions ''width'') \<or> \<not> truthy (dimensions ''height'')
               then Inl (Error ''Could not determine image dimensions'')
               else Inr dimensions))"

definition createFromFile ::
  "(string \<Rightarrow> js_error + obj) \<Rightarrow> string \<Rightarrow> string \<Rightarrow> string \<Rightarrow> UploadedFile option \<Rightarrow> world
     \<Rightarrow> (js_error + Media option) \<times> world" where
  "createFromFile imageSize now1 now2 ts file w =
     (case file of
        None \<Rightarrow> (Inl (Error ''No file uploaded''), w)
      | Some f \<Rightarrow>
          (case getImageDimensions imageSize f w of
             Inl e \<Rightarrow> (Inl e, w)
           | Inr dimensions \<Rightarrow>
               if \<not> truthy (dimensions ''width'') \<or> \<not> truthy (dimensions ''height'')
               then (Inl (Error ''Could not determine image dimensions''), w)
               else
                 let mediaInput =
                       (\<lambda>k. if k = ''width'' then dimensions ''width''
                             else if k = ''height'' then dimensions ''height'' else None)
                       (''originalFileName'' \<mapsto> JStr (originalname f),
                        ''storedFileName'' \<mapsto> JStr (filename f),
                        ''mimeType'' \<mapsto> JStr (mimetype f),
                        ''fileSize'' \<mapsto> JNum (size_bytes f),
                        ''createdAt'' \<mapsto> JStr now1,
                        ''updatedAt'' \<mapsto> JStr now2,
                        ''deletedAt'' \<mapsto> JNull)
                 in create ts mediaInput w))"

definition createOrUpdate :: "string \<Rightarrow> obj \<Rightarrow> world \<Rightarrow> (js_error + Media option) \<times> world" where
  "createOrUpdate ts model w =
     (if truthy (model ''id'') then update model w else create ts model w)"

section \<open>media/middleware.ts\<close>

text \<open>Decimal digits of a number, as string concatenation prints it.\<close>

fun decimal :: "nat \<Rightarrow> string" where
  "decimal n =
     (if n < 10 then [''0123456789'' ! n]
      else decimal (n div 10) @ [''0123456789'' ! (n mod 10)])"

text \<open>\<open>path.extname\<close> on a name that does not end in a slash.\<close>

definition basename :: "string \<Rightarrow> string" where
  "basename p = rev (takeWhile (\<lambda>c. c \<noteq> CHR ''/'') (rev p))"

declare decimal.simps [simp del]

definition extname :: "string \<Rightarrow> string" where
  "extname p =
     (let b = basename p;
          e = rev (takeWhile (\<lambda>c. c \<noteq> CHR ''.'') (rev b))
      in if \<not> List.member b (CHR ''.'') then []
         else if length e + 1 = length b then []
         else if b = ''..'' then []
         else CHR ''.'' # e)"

text \<open>
  The \<open>filename\<close> callback of the disk storage; \<open>dateNow\<close> is \<open>Date.now()\<close> and
  \<open>rnd\<close> is \<open>Math.round(Math.random() * 1e9)\<close>.
\<close>

definition storage_filename :: "nat \<Rightarrow> nat \<Rightarrow> multipart_file \<Rightarrow> string" where
  "storage_filename dateNow rnd file =
     (let uniqueSuffix = decimal dateNow @ ''-'' @ decimal rnd;
          extension = extname (originalname file)
      in uniqueSuffix @ extension)"

definition startsWith :: "string \<Rightarrow> string \<Rightarrow> bool" where
  "startsWith s p = (take (length p) s = p)"

definition fileFilter :: "multipart_file \<Rightarrow> js_error + bool" where
  "fileFilter file =
     (if startsWith (mimetype file) ''image/'' then Inr True
      else Inl (Error ''Only image files are allowed''))"

text \<open>
  \<open>upload.single("file")\<close> on the file part of the field \<open>file\<close>: without one the
  request goes on with \<open>req.file\<close> undefined; an error of the filter goes to \<open>next\<close>
  before anything is stored; an accepted part is written to the destination \<open>./uploads\<close>
  joined with the generated name.
\<close>

definition upload_single ::
  "nat \<Rightarrow> nat \<Rightarrow> (multipart_file \<times> string) option \<Rightarrow> world
     \<Rightarrow> (js_error + UploadedFile option) \<times> world" where
  "upload_single dateNow rnd part w =
     (case part of
        None \<Rightarrow> (Inr None, w)
      | Some (file, content) \<Rightarrow>
          (case fileFilter file of
             Inl e \<Rightarrow> (Inl e, w)
           | Inr accept \<Rightarrow>
               if \<not> accept then (Inr None, w)
               else
                 let name = storage_filename dateNow rnd file;
                     dest = path_join ''./uploads'' name
                 in (Inr (Some \<lparr>originalname = originalname file, mimetype = mimetype file,
                                filename = name, size_bytes = int (length content),
                                path = dest\<rparr>),
                     w\<lparr>uploads := (uploads w)(dest \<mapsto> content)\<rparr>)))"

section \<open>middleware.ts\<close>

definition sendApiResponse :: "payload \<Rightarrow> HttpStatusCode \<Rightarrow> string option \<Rightarrow> response" where
  "sendApiResponse d c m =
     \<lparr>status = status_number c, body = \<lparr>data = d, code = status_number c, msg = m\<rparr>\<rparr>"

definition notFoundMiddleware :: response where
  "notFoundMiddleware = sendApiResponse PNull NotFound (Some ''API route not found'')"

fun errorHandler :: "js_error \<Rightarrow> response" where
  "errorHandler (NotFoundError m) = sendApiResponse PNull NotFound (Some m)"
| "errorHandler (ValidationError m) = sendApiResponse PNull BadRequest (Some m)"
| "errorHandler (UnauthorizedError m) = sendApiResponse PNull Unauthorized (Some m)"
| "errorHandler (Error m) = sendApiResponse PNull InternalServerError (Some m)"

section \<open>media/api.ts\<close>

text \<open>
  \<open>parseInt(s, 10)\<close>: leading white space, an optional sign, then the longest run of
  decimal digits; \<open>None\<close> is \<open>NaN\<close>. The value is the exact integer, which is what
  JavaScript returns below \<open>2^53\<close>; beyond that JavaScript rounds it to a double.
\<close>

definition is_space :: "char \<Rightarrow> bool" where
  "is_space c = List.member [CHR '' '', CHR 0x09, CHR 0x0A, CHR 0x0B, CHR 0x0C, CHR 0x0D] c"

definition is_digit :: "char \<Rightarrow> bool" where
  "is_digit c = List.member ''0123456789'' c"

definition digit_value :: "char \<Rightarrow> nat" where
  "digit_value c = length (takeWhile (\<lambda>d. d \<noteq> c) ''0123456789'')"

definition parseInt :: "string \<Rightarrow> int option" where
  "parseInt s =
     (let t = dropWhile is_space s;
          negative = (case t of [] \<Rightarrow> False | c # r \<Rightarrow> c = CHR ''-'');
          u = (case t of [] \<Rightarrow> [] | c # r \<Rightarrow> if c = CHR ''-'' \<or> c = CHR ''+'' then r else t);
          ds = takeWhile is_digit u;
          n = int (foldl (\<lambda>a c. 10 * a + digit_value c) 0 ds)
      in if ds = [] then None else Some (if negative then - n else n))"

text \<open>
  Each handler runs inside \<open>try\<close> and forwards what it catches with \<open>next(err)\<close>, which
  reaches \<open>errorHandler\<close>.
\<close>

definition payload_of :: "Media option \<Rightarrow> payload" where
  "payload_of m = (case m of None \<Rightarrow> PUndefined | Some r \<Rightarrow> PMedia r)"

definition get_media :: "world \<Rightarrow> response \<times> world" where
  "get_media w = (sendApiResponse (PMediaList (getAll w)) OK None, w)"

definition post_media ::
  "nat \<Rightarrow> nat \<Rightarrow> (string \<Rightarrow> js_error + obj) \<Rightarrow> string \<Rightarrow> string \<Rightarrow> string
     \<Rightarrow> (multipart_file \<times> string) option \<Rightarrow> world \<Rightarrow> response \<times> world" where
  "post_media dateNow rnd imageSize now1 now2 ts part w =
     (case upload_single dateNow rnd part w of
        (Inl e, w1) \<Rightarrow> (errorHandler e, w1)
      | (Inr file, w1) \<Rightarrow>
          (case file of
             None \<Rightarrow> (errorHandler (ValidationError ''No file uploaded''), w1)
           | Some f \<Rightarrow>
               (case createFromFile imageSize now1 now2 ts (Some f) w1 of
                  (Inl e, w2) \<Rightarrow> (errorHandler e, w2)
                | (Inr media, w2) \<Rightarrow>
                    (sendApiResponse (payload_of media) Created (Some ''Media stored''), w2))))"

definition put_media :: "string \<Rightarrow> string \<Rightarrow> obj \<Rightarrow> world \<Rightarrow> response \<times> world" where
  "put_media ts idParam updates w =
     (case parseInt idParam of
        None \<Rightarrow> (errorHandler (ValidationError ''Invalid ID''), w)
      | Some i \<Rightarrow>
          (case createOrUpdate ts ([''id'' \<mapsto> JNum i] ++ updates) w of
             (Inl e, w') \<Rightarrow> (errorHandler e, w')
           | (Inr None, w') \<Rightarrow> (errorHandler (NotFoundError ''Media not found''), w')
           | (Inr (Some r), w') \<Rightarrow>
               (sendApiResponse (PMessage ''Media updated'') OK None, w')))"

definition delete_media :: "string option \<Rightarrow> string \<Rightarrow> world \<Rightarrow> response \<times> world" where
  "delete_media fault idParam w =
     (case parseInt idParam of
        None \<Rightarrow> (errorHandler (ValidationError ''Invalid ID''), w)
      | Some i \<Rightarrow>
          (case remove fault i w of
             (Inl e, w') \<Rightarrow> (errorHandler e, w')
           | (Inr result, w') \<Rightarrow>
               if rowsAffected result = 0
               then (errorHandler (NotFoundError ''Media not found''), w')
               else (sendApiResponse PNull OK (Some ''Media deleted''), w')))"

definition patch_soft_delete :: "string \<Rightarrow> string \<Rightarrow> string \<Rightarrow> world \<Rightarrow> response \<times> world" where
  "patch_soft_delete now1 now2 idParam w =
     (case parseInt idParam of
        None \<Rightarrow> (errorHandler (ValidationError ''Invalid ID''), w)
      | Some i \<Rightarrow>
          (case softDelete now1 now2 i w of
             (Inl e, w') \<Rightarrow> (errorHandler e, w')
           | (Inr None, w') \<Rightarrow> (errorHandler (NotFoundError ''Media not found''), w')
           | (Inr (Some r), w') \<Rightarrow>
               (sendApiResponse PNull OK (Some ''Media soft-deleted''), w')))"

definition patch_restore :: "string \<Rightarrow> string \<Rightarrow> world \<Rightarrow> response \<times> world" where
  "patch_restore now idParam w =
     (case parseInt idParam of
        None \<Rightarrow> (errorHandler (ValidationError ''Invalid ID''), w)
      | Some i \<Rightarrow>
          (case restore now i w of
             (Inl e, w') \<Rightarrow> (errorHandler e, w')
           | (Inr None, w') \<Rightarrow> (errorHandler (NotFoundError ''Media not found''), w')
           | (Inr (Some r), w') \<Rightarrow>
               (sendApiResponse PNull OK (Some ''Media restored''), w')))"

section \<open>index.ts: the application\<close>

text \<open>
  What a request reads from its surroundings while it runs is collected in \<open>env\<close>.
\<close>

record env =
  clock1 :: string
  clock2 :: string
  current_timestamp :: string
  date_now :: nat
  random :: nat
  image_size :: "string \<Rightarrow> js_error + obj"
  unlink_fault :: "string option"

text \<open>
  The route of the media router that the method and the path select, with the \<open>:id\<close>
  segment of the path; \<open>Unrouted\<close> when none does.
\<close>

datatype route =
    GET_media
  | POST_media
  | PUT_media string
  | DELETE_media string
  | PATCH_soft_delete string
  | PATCH_restore string
  | Unrouted

text \<open>
  What \<open>express.json()\<close> makes of the request: there is no JSON body to read, or the
  body parses to an object, or it does not parse and the error with that message is
  passed to \<open>next\<close>.
\<close>

datatype json_body =
    NoJson
  | Json obj
  | BadJson string

text \<open>
  A request: whether its method is \<open>OPTIONS\<close>, its JSON body, its file part, if it has
  one, with the name of the form field, and the route it selects.
\<close>

record request =
  options_method :: bool
  json :: json_body
  upload :: "(string \<times> multipart_file \<times> string) option"
  target :: route

text \<open>
  What the client gets: an envelope sent by \<open>res.sendApiResponse\<close>; or the HTML page
  of Express's final handler with its status; or a status with no body at all.
\<close>

datatype reply =
    Envelope response
  | Page nat
  | NoContent nat

text \<open>
  The media router below \<open>/api/v1/media\<close>. A file part under a field other than
  \<open>file\<close> makes multer pass a \<open>MulterError\<close> to \<open>next\<close>. The documentation routes of
  api.ts, which answer with the generated API description, are not part of this model.
\<close>

fun mediaApi ::
  "env \<Rightarrow> obj \<Rightarrow> (string \<times> multipart_file \<times> string) option \<Rightarrow> route \<Rightarrow> world
     \<Rightarrow> response \<times> world" where
  "mediaApi e b u GET_media w = get_media w"
| "mediaApi e b u POST_media w =
     (case u of
        None \<Rightarrow>
          post_media (date_now e) (random e) (image_size e) (clock1 e) (clock2 e)
            (current_timestamp e) None w
      | Some (field, file, content) \<Rightarrow>
          if field = ''file''
          then post_media (date_now e) (random e) (image_size e) (clock1 e) (clock2 e)
                 (current_timestamp e) (Some (file, content)) w
          else (errorHandler (Error ''Unexpected field''), w))"
| "mediaApi e b u (PUT_media idParam) w = put_media (current_timestamp e) idParam b w"
| "mediaApi e b u (DELETE_media idParam) w = delete_media (unlink_fault e) idParam w"
| "mediaApi e b u (PATCH_soft_delete idParam) w =
     patch_soft_delete (clock1 e) (clock2 e) idParam w"
| "mediaApi e b u (PATCH_restore idParam) w = patch_restore (clock1 e) idParam w"
| "mediaApi e b u Unrouted w = (notFoundMiddleware, w)"

text \<open>
  \<open>errorHandler\<close> as it is mounted. It answers through \<open>res.sendApiResponse\<close>, which
  exists only once \<open>apiResponseMiddleware\<close> has run; before that the call throws a
  \<open>TypeError\<close> out of the handler, no error handler is left, and Express's final
  handler answers with status 500 and an HTML page.
\<close>

definition errorHandler_mounted :: "bool \<Rightarrow> js_error \<Rightarrow> reply" where
  "errorHandler_mounted responder err =
     (if responder then Envelope (errorHandler err) else Page 500)"

text \<open>
  The middleware in the order index.ts mounts it: \<open>cors()\<close>, which ends an \<open>OPTIONS\<close>
  request with 204 and no body; \<open>express.json()\<close>, whose error skips every ordinary
  middleware and goes to \<open>errorHandler\<close>; \<open>apiResponseMiddleware\<close>, which installs the
  responder; the router; \<open>errorHandler\<close>; \<open>notFoundMiddleware\<close>.
\<close>

definition app :: "env \<Rightarrow> request \<Rightarrow> world \<Rightarrow> reply \<times> world" where
  "app e rq w =
     (if options_method rq then (NoContent 204, w)
      else
        (case json rq of
           BadJson m \<Rightarrow> (errorHandler_mounted False (Error m), w)
         | NoJson \<Rightarrow>
             (case mediaApi e Map.empty (upload rq) (target rq) w of
                (r, w') \<Rightarrow> (Envelope r, w'))
         | Json b \<Rightarrow>
             (case mediaApi e b (upload rq) (target rq) w of
                (r, w') \<Rightarrow> (Envelope r, w'))))"

section \<open>A sample table\<close>

text \<open>One stored picture, used to run the operations on concrete data.\<close>

definition row1 :: Media where
  "row1 = [''id'' \<mapsto> JNum 1, ''originalFileName'' \<mapsto> JStr ''a.png'',
           ''storedFileName'' \<mapsto> JStr ''17-4.png'', ''mimeType'' \<mapsto> JStr ''image/png'',
           ''width'' \<mapsto> JNum 100, ''height'' \<mapsto> JNum 50, ''fileSize'' \<mapsto> JNum 2048,
           ''createdAt'' \<mapsto> JStr ''t0'', ''updatedAt'' \<mapsto> JStr ''t0'',
           ''deletedAt'' \<mapsto> JNull]"

definition world1 :: world where
  "world1 = \<lparr>table = [row1], sqlite_sequence = 1,
             uploads = [''uploads/17-4.png'' \<mapsto> ''PNG''], console = []\<rparr>"

text \<open>Surroundings in which the image-size library reads every file as 100 by 50.\<close>

definition env1 :: env where
  "env1 = \<lparr>clock1 = ''t1'', clock2 = ''t2'', current_timestamp = ''ts'', date_now = 18,
            random = 5,
            image_size = (\<lambda>buffer. Inr [''width'' \<mapsto> JNum 100, ''height'' \<mapsto> JNum 50]),
            unlink_fault = None\<rparr>"

text \<open>The JSON body of a request that carries every required field of a new record.\<close>

definition body1 :: obj where
  "body1 = [''originalFileName'' \<mapsto> JStr ''b.png'', ''storedFileName'' \<mapsto> JStr ''18-5.png'',
            ''mimeType'' \<mapsto> JStr ''image/png'', ''width'' \<mapsto> JNum 10,
            ''height'' \<mapsto> JNum 20, ''fileSize'' \<mapsto> JNum 512]"

section \<open>Queries by identifier\<close>

lemma first_take_select: "first (take 1 (db_select p rows)) = List.find p rows"
  by (induction rows) (simp_all add: db_select_def)

lemma eq_id_num: "eq_id (Some (JNum i)) = (\<lambda>r. r ''id'' = Some (JNum i))"
  by (rule ext) (simp add: eq_id_def)

lemma assign_two:
  "assign [''deletedAt'' \<mapsto> a, ''updatedAt'' \<mapsto> b] r = r(''deletedAt'' \<mapsto> a, ''updatedAt'' \<mapsto> b)"
  by (rule ext) (simp add: assign_def map_add_def restrict_map_def Media_columns_def)

lemma first_returning:
  "first (db_update_returning v p rows) = map_option (assign v) (List.find p rows)"
  by (induction rows) (simp_all add: db_update_returning_def)

section \<open>Soft delete and restore\<close>

lemma softDelete_unfold:
  "softDelete now1 now2 i w =
     (case List.find (\<lambda>r. r ''id'' = Some (JNum i)) (table w) of
        None \<Rightarrow> (Inl (NotFoundError ''Media not found''), w)
      | Some r \<Rightarrow>
          if r ''deletedAt'' \<noteq> Some JNull
          then (Inl (ValidationError ''Record is already deleted''), w)
          else (Inr (Some (r(''deletedAt'' \<mapsto> JStr now1, ''updatedAt'' \<mapsto> JStr now2))),
                w\<lparr>table := map (\<lambda>x. if x ''id'' = Some (JNum i)
                                     then x(''deletedAt'' \<mapsto> JStr now1, ''updatedAt'' \<mapsto> JStr now2)
                                     else x) (table w)\<rparr>))"
  unfolding softDelete_def first_take_select first_returning eq_id_num db_update_def Let_def
  by (simp add: assign_two split: option.split)

lemma restore_unfold:
  "restore now i w =
     (case List.find (\<lambda>r. r ''id'' = Some (JNum i)) (table w) of
        None \<Rightarrow> (Inl (NotFoundError ''Media not found''), w)
      | Some r \<Rightarrow>
          if r ''deletedAt'' = Some JNull
          then (Inl (ValidationError ''Record is not deleted''), w)
          else (Inr (Some (r(''deletedAt'' \<mapsto> JNull, ''updatedAt'' \<mapsto> JStr now))),
                w\<lparr>table := map (\<lambda>x. if x ''id'' = Some (JNum i)
                                     then x(''deletedAt'' \<mapsto> JNull, ''updatedAt'' \<mapsto> JStr now)
                                     else x) (table w)\<rparr>))"
  unfolding restore_def first_take_select first_returning eq_id_num db_update_def Let_def
  by (simp add: assign_two split: option.split)

text \<open>
  C1. \<open>softDelete\<close> of an identifier that no row has throws \<open>NotFoundError\<close>; when the
  row found has a \<open>deletedAt\<close> other than null it throws \<open>ValidationError\<close>; in both
  cases nothing changes. Otherwise the rows with that identifier get \<open>deletedAt\<close> and
  \<open>updatedAt\<close> set to the two clock readings taken at that moment, every other row is
  untouched, and the updated row is returned.
\<close>

theorem softDelete_spec:
  "(\<not> (\<exists>r \<in> set (table w). r ''id'' = Some (JNum i)) \<longrightarrow>
      softDelete now1 now2 i w = (Inl (NotFoundError ''Media not found''), w))
   \<and> (\<forall>r. List.find (\<lambda>r. r ''id'' = Some (JNum i)) (table w) = Some r
            \<and> r ''deletedAt'' \<noteq> Some JNull \<longrightarrow>
      softDelete now1 now2 i w = (Inl (ValidationError ''Record is already deleted''), w))
   \<and> (\<forall>r. List.find (\<lambda>r. r ''id'' = Some (JNum i)) (table w) = Some r
            \<and> r ''deletedAt'' = Some JNull \<longrightarrow>
      softDelete now1 now2 i w =
        (Inr (Some (r(''deletedAt'' \<mapsto> JStr now1, ''updatedAt'' \<mapsto> JStr now2))),
         w\<lparr>table := map (\<lambda>x. if x ''id'' = Some (JNum i)
                              then x(''deletedAt'' \<mapsto> JStr now1, ''updatedAt'' \<mapsto> JStr now2)
                              else x) (table w)\<rparr>))"
proof (intro conjI allI impI)
  assume "\<not> (\<exists>r \<in> set (table w). r ''id'' = Some (JNum i))"
  then have "List.find (\<lambda>r. r ''id'' = Some (JNum i)) (table w) = None"
    by (simp add: find_None_iff)
  then show "softDelete now1 now2 i w = (Inl (NotFoundError ''Media not found''), w)"
    by (simp add: softDelete_unfold)
qed (simp_all add: softDelete_unfold)

theorem softDelete_spec_witness:
  "softDelete ''t1'' ''t2'' 2 world1 = (Inl (NotFoundError ''Media not found''), world1)
   \<and> softDelete ''t1'' ''t2'' 1 (world1\<lparr>table := [row1(''deletedAt'' \<mapsto> JStr ''t0'')]\<rparr>)
       = (Inl (ValidationError ''Record is already deleted''),
          world1\<lparr>table := [row1(''deletedAt'' \<mapsto> JStr ''t0'')]\<rparr>)
   \<and> softDelete ''t1'' ''t2'' 1 world1
       = (Inr (Some (row1(''deletedAt'' \<mapsto> JStr ''t1'', ''updatedAt'' \<mapsto> JStr ''t2''))),
          world1\<lparr>table := [row1(''deletedAt'' \<mapsto> JStr ''t1'', ''updatedAt'' \<mapsto> JStr ''t2'')]\<rparr>)"
proof -
  have a: "\<not> (\<exists>r \<in> set (table world1). r ''id'' = Some (JNum 2))"
    by (simp add: world1_def row1_def)
  let ?w = "world1\<lparr>table := [row1(''deletedAt'' \<mapsto> JStr ''t0'')]\<rparr>"
  have b: "List.find (\<lambda>r. r ''id'' = Some (JNum 1)) (table ?w)
             = Some (row1(''deletedAt'' \<mapsto> JStr ''t0''))
           \<and> (row1(''deletedAt'' \<mapsto> JStr ''t0'')) ''deletedAt'' \<noteq> Some JNull"
    by (simp add: row1_def)
  have c: "List.find (\<lambda>r. r ''id'' = Some (JNum 1)) (table world1) = Some row1
           \<and> row1 ''deletedAt'' = Some JNull"
    by (simp add: world1_def row1_def)
  have d: "row1 ''id'' = Some (JNum 1)"
    by (simp add: row1_def)
  from a b c d show ?thesis
    using softDelete_spec [of world1 2 "''t1''" "''t2''"]
          softDelete_spec [of ?w 1 "''t1''" "''t2''"]
          softDelete_spec [of world1 1 "''t1''" "''t2''"]
    by (simp add: world1_def)
qed

text \<open>
  C2. \<open>restore\<close> of an identifier that no row has throws \<open>NotFoundError\<close>; when the row
  found has \<open>deletedAt\<close> null it throws \<open>ValidationError\<close>; in both cases nothing
  changes. Otherwise the rows with that identifier get \<open>deletedAt\<close> null and \<open>updatedAt\<close>
  the clock reading, every other row is untouched, and the updated row is returned.
\<close>

theorem restore_spec:
  "(\<not> (\<exists>r \<in> set (table w). r ''id'' = Some (JNum i)) \<longrightarrow>
      restore now i w = (Inl (NotFoundError ''Media not found''), w))
   \<and> (\<forall>r. List.find (\<lambda>r. r ''id'' = Some (JNum i)) (table w) = Some r
            \<and> r ''deletedAt'' = Some JNull \<longrightarrow>
      restore now i w = (Inl (ValidationError ''Record is not deleted''), w))
   \<and> (\<forall>r. List.find (\<lambda>r. r ''id'' = Some (JNum i)) (table w) = Some r
            \<and> r ''deletedAt'' \<noteq> Some JNull \<longrightarrow>
      restore now i w =
        (Inr (Some (r(''deletedAt'' \<mapsto> JNull, ''updatedAt'' \<mapsto> JStr now))),
         w\<lparr>table := map (\<lambda>x. if x ''id'' = Some (JNum i)
                              then x(''deletedAt'' \<mapsto> JNull, ''updatedAt'' \<mapsto> JStr now)
                              else x) (table w)\<rparr>))"
proof (intro conjI allI impI)
  assume "\<not> (\<exists>r \<in> set (table w). r ''id'' = Some (JNum i))"
  then have "List.find (\<lambda>r. r ''id'' = Some (JNum i)) (table w) = None"
    by (simp add: find_None_iff)
  then show "restore now i w = (Inl (NotFoundError ''Media not found''), w)"
    by (simp add: restore_unfold)
qed (simp_all add: restore_unfold)

theorem restore_spec_witness:
  "restore ''t3'' 2 world1 = (Inl (NotFoundError ''Media not found''), world1)
   \<and> restore ''t3'' 1 world1 = (Inl (ValidationError ''Record is not deleted''), world1)
   \<and> restore ''t3'' 1 (world1\<lparr>table := [row1(''deletedAt'' \<mapsto> JStr ''t1'')]\<rparr>)
       = (Inr (Some (row1(''deletedAt'' \<mapsto> JNull, ''updatedAt'' \<mapsto> JStr ''t3''))),
          world1\<lparr>table := [row1(''deletedAt'' \<mapsto> JNull, ''updatedAt'' \<mapsto> JStr ''t3'')]\<rparr>)"
proof -
  have a: "\<not> (\<exists>r \<in> set (table world1). r ''id'' = Some (JNum 2))"
    by (simp add: world1_def row1_def)
  have b: "List.find (\<lambda>r. r ''id'' = Some (JNum 1)) (table world1) = Some row1
           \<and> row1 ''deletedAt'' = Some JNull"
    by (simp add: world1_def row1_def)
  let ?w = "world1\<lparr>table := [row1(''deletedAt'' \<mapsto> JStr ''t1'')]\<rparr>"
  have c: "List.find (\<lambda>r. r ''id'' = Some (JNum 1)) (table ?w)
             = Some (row1(''deletedAt'' \<mapsto> JStr ''t1''))
           \<and> (row1(''deletedAt'' \<mapsto> JStr ''t1'')) ''deletedAt'' \<noteq> Some JNull"
    by (simp add: row1_def)
  have d: "row1 ''id'' = Some (JNum 1)"
    by (simp add: row1_def)
  from a b c d show ?thesis
    using restore_spec [of world1 2 "''t3''"]
          restore_spec [of world1 1 "''t3''"]
          restore_spec [of ?w 1 "''t3''"]
    by (simp add: world1_def)
qed

lemma find_map_keep:
  "(\<And>x. P (f x) = P x) \<Longrightarrow> List.find P (map f xs) = map_option f (List.find P xs)"
  by (induction xs) simp_all

text \<open>
  C3. On a row whose \<open>deletedAt\<close> is null, \<open>softDelete\<close> followed by \<open>restore\<close> of the same
  identifier both succeed; the row that comes back, which is also the row then stored,
  has \<open>deletedAt\<close> null and agrees with the original on every property other than
  \<open>updatedAt\<close> and \<open>deletedAt\<close>. Rows with other identifiers, the upload directory and
  the console are as before.
\<close>

theorem softDelete_restore_roundtrip:
  assumes found: "List.find (\<lambda>r. r ''id'' = Some (JNum i)) (table w) = Some r"
    and active: "r ''deletedAt'' = Some JNull"
  shows "\<exists>r1 w1 r2 w2.
           softDelete now1 now2 i w = (Inr (Some r1), w1)
         \<and> restore now3 i w1 = (Inr (Some r2), w2)
         \<and> r2 ''deletedAt'' = Some JNull
         \<and> (\<forall>k. k \<noteq> ''updatedAt'' \<and> k \<noteq> ''deletedAt'' \<longrightarrow> r2 k = r k)
         \<and> List.find (\<lambda>r. r ''id'' = Some (JNum i)) (table w2) = Some r2
         \<and> table w2 = map (\<lambda>x. if x ''id'' = Some (JNum i)
                                 then x(''deletedAt'' \<mapsto> JNull, ''updatedAt'' \<mapsto> JStr now3)
                                 else x) (table w)
         \<and> uploads w2 = uploads w \<and> console w2 = console w"
proof -
  let ?P = "\<lambda>r. r ''id'' = Some (JNum i)"
  let ?f1 = "\<lambda>x. if x ''id'' = Some (JNum i)
                  then x(''deletedAt'' \<mapsto> JStr now1, ''updatedAt'' \<mapsto> JStr now2) else x"
  let ?f2 = "\<lambda>x. if x ''id'' = Some (JNum i)
                  then x(''deletedAt'' \<mapsto> JNull, ''updatedAt'' \<mapsto> JStr now3) else x"
  let ?r1 = "r(''deletedAt'' \<mapsto> JStr now1, ''updatedAt'' \<mapsto> JStr now2)"
  let ?r2 = "r(''deletedAt'' \<mapsto> JNull, ''updatedAt'' \<mapsto> JStr now3)"
  let ?w1 = "w\<lparr>table := map ?f1 (table w)\<rparr>"
  let ?w2 = "w\<lparr>table := map ?f2 (table w)\<rparr>"
  have rid: "r ''id'' = Some (JNum i)"
    using found by (auto simp: find_Some_iff)
  have sd: "softDelete now1 now2 i w = (Inr (Some ?r1), ?w1)"
    using found active by (simp add: softDelete_unfold)
  have "List.find ?P (map ?f1 (table w)) = map_option ?f1 (List.find ?P (table w))"
    by (rule find_map_keep) simp
  then have found1: "List.find ?P (table ?w1) = Some ?r1"
    using found rid by simp
  have comp: "map ?f2 (map ?f1 (table w)) = map ?f2 (table w)"
    by (auto simp: fun_eq_iff)
  have r12: "?r1(''deletedAt'' \<mapsto> JNull, ''updatedAt'' \<mapsto> JStr now3) = ?r2"
    by (auto simp: fun_eq_iff)
  have rs: "restore now3 i ?w1 = (Inr (Some ?r2), ?w2)"
    using found1 comp r12 by (simp add: restore_unfold)
  have "List.find ?P (map ?f2 (table w)) = map_option ?f2 (List.find ?P (table w))"
    by (rule find_map_keep) simp
  then have found2: "List.find ?P (table ?w2) = Some ?r2"
    using found rid by simp
  show ?thesis
    using sd rs found2 by (intro exI [of _ ?r1] exI [of _ ?w1] exI [of _ ?r2] exI [of _ ?w2]) simp
qed

theorem softDelete_restore_roundtrip_witness:
  "\<exists>r1 w1 r2 w2.
           softDelete ''t1'' ''t2'' 1 world1 = (Inr (Some r1), w1)
         \<and> restore ''t3'' 1 w1 = (Inr (Some r2), w2)
         \<and> r2 ''deletedAt'' = Some JNull
         \<and> (\<forall>k. k \<noteq> ''updatedAt'' \<and> k \<noteq> ''deletedAt'' \<longrightarrow> r2 k = row1 k)
         \<and> table w2 = [row1(''deletedAt'' \<mapsto> JNull, ''updatedAt'' \<mapsto> JStr ''t3'')]"
proof -
  have c: "List.find (\<lambda>r. r ''id'' = Some (JNum 1)) (table world1) = Some row1"
    by (simp add: world1_def row1_def)
  have n: "row1 ''deletedAt'' = Some JNull"
    by (simp add: row1_def)
  have d: "row1 ''id'' = Some (JNum 1)"
    by (simp add: row1_def)
  have t: "table world1 = [row1]"
    by (simp add: world1_def)
  from softDelete_restore_roundtrip [OF c n, of "''t1''" "''t2''" "''t3''"]
  show ?thesis
    unfolding t using d by fastforce
qed

section \<open>The error handler and the envelope\<close>


lemma errorHandler_sent: "\<exists>d c m. errorHandler err = sendApiResponse d c m"
  by (cases err) auto

lemma get_media_sent: "\<exists>d c m. fst (get_media w) = sendApiResponse d c m"
  by (auto simp: get_media_def)

lemma post_media_sent:
  "\<exists>d c m. fst (post_media dn rnd isz n1 n2 ts part w) = sendApiResponse d c m"
  by (auto simp: post_media_def errorHandler_sent split: prod.split sum.split option.split)

lemma put_media_sent: "\<exists>d c m. fst (put_media ts idParam updates w) = sendApiResponse d c m"
  by (auto simp: put_media_def errorHandler_sent split: prod.split sum.split option.split)

lemma delete_media_sent: "\<exists>d c m. fst (delete_media fault idParam w) = sendApiResponse d c m"
  by (auto simp: delete_media_def errorHandler_sent split: prod.split sum.split option.split)

lemma patch_soft_delete_sent:
  "\<exists>d c m. fst (patch_soft_delete n1 n2 idParam w) = sendApiResponse d c m"
  by (auto simp: patch_soft_delete_def errorHandler_sent split: prod.split sum.split option.split)

lemma patch_restore_sent:
  "\<exists>d c m. fst (patch_restore n1 idParam w) = sendApiResponse d c m"
  by (auto simp: patch_restore_def errorHandler_sent split: prod.split sum.split option.split)

lemma mediaApi_sent: "\<exists>d c m. fst (mediaApi e b u rt w) = sendApiResponse d c m"
proof (cases rt)
  case GET_media
  then show ?thesis using get_media_sent by simp
next
  case POST_media
  then show ?thesis
    by (auto simp: post_media_sent errorHandler_sent split: option.split)
next
  case (PUT_media idParam)
  then show ?thesis using put_media_sent by simp
next
  case (DELETE_media idParam)
  then show ?thesis using delete_media_sent by simp
next
  case (PATCH_soft_delete idParam)
  then show ?thesis using patch_soft_delete_sent by simp
next
  case (PATCH_restore idParam)
  then show ?thesis using patch_restore_sent by simp
next
  case Unrouted
  then show ?thesis by (auto simp: notFoundMiddleware_def)
qed

text \<open>
  A request that is not \<open>OPTIONS\<close> and whose body \<open>express.json()\<close> accepts is answered
  with an envelope whose \<open>code\<close> is the status of the response, whichever route it
  selects and however the route ends.
\<close>

lemma app_parsed_enveloped:
  assumes "\<not> options_method rq" and "\<forall>m. json rq \<noteq> BadJson m"
  shows "\<exists>r w'. app e rq w = (Envelope r, w') \<and> code (body r) = status r"
proof -
  obtain b where b: "(json rq = NoJson \<and> b = Map.empty) \<or> json rq = Json b"
    using assms(2) by (cases "json rq") auto
  obtain r w' where m: "mediaApi e b (upload rq) (target rq) w = (r, w')"
    by (cases "mediaApi e b (upload rq) (target rq) w") auto
  obtain d c m' where "fst (mediaApi e b (upload rq) (target rq) w) = sendApiResponse d c m'"
    using mediaApi_sent by blast
  then have "code (body r) = status r"
    using m by (simp add: sendApiResponse_def)
  moreover have "app e rq w = (Envelope r, w')"
    using assms(1) b m by (auto simp: app_def)
  ultimately show ?thesis by blast
qed

text \<open>
  C8. The request \<open>PUT /api/v1/media/1\<close> with a JSON body that does not parse:
  \<open>express.json()\<close> forwards its error before \<open>apiResponseMiddleware\<close> has run, so
  \<open>errorHandler\<close> finds no \<open>res.sendApiResponse\<close> and the client gets the HTML page of
  Express's final handler with status 500, where the specification has the envelope
  \<open>{ data, code, msg }\<close> on every response. With the responder installed the same error
  is answered with the envelope.
\<close>

theorem unparsable_body_reply:
  "app env1 \<lparr>options_method = False, json = BadJson ''Unexpected end of JSON input'',
             upload = None, target = PUT_media ''1''\<rparr> world1
     = (Page 500, world1)
   \<and> errorHandler_mounted True (Error ''Unexpected end of JSON input'')
     = Envelope \<lparr>status = 500,
                 body = \<lparr>data = PNull, code = 500,
                          msg = Some ''Unexpected end of JSON input''\<rparr>\<rparr>"
  by (simp add: app_def errorHandler_mounted_def sendApiResponse_def)

section \<open>Update\<close>

text \<open>
  What \<open>update\<close> does on every input: a \<open>width\<close> or \<open>height\<close> that is present and not a
  number stops it with a plain \<open>Error\<close>; no identifier in the table changes; an
  identifier that no row has gives \<open>NotFoundError\<close> when the model has a column to
  assign. The type of \<open>fileSize\<close> is not looked at.
\<close>

lemma update_rejects_width:
  assumes "model ''width'' = Some v" and "\<forall>n. v \<noteq> JNum n"
  shows "update model w = (Inl (Error ''Width must be a number''), w)"
proof -
  have "typeof (Some v) \<noteq> ''number''"
    using assms(2) by (cases v) simp_all
  then show ?thesis
    using assms(1) by (simp add: update_def validateUpdate_def)
qed

lemma assign_without_id: "assign (model(''id'' := None)) r ''id'' = r ''id''"
  by (simp add: assign_def map_add_def restrict_map_def)

lemma update_keeps_ids:
  "map (\<lambda>r. r ''id'') (table (snd (update model w))) = map (\<lambda>r. r ''id'') (table w)"
  by (cases "validateUpdate model")
     (simp_all add: update_def db_update_def Let_def assign_without_id o_def)

lemma update_not_found:
  assumes "validateUpdate model = Inr ()"
    and "\<not> list_all (\<lambda>c. (model(''id'' := None)) c = None) Media_columns"
    and "\<not> (\<exists>r \<in> set (table w). eq_id (model ''id'') r)"
  shows "update model w = (Inl (NotFoundError ''No record found with the provided id''), w)"
proof -
  have f: "filter (eq_id (model ''id'')) (table w) = []"
    using assms(3) by (simp add: filter_empty_conv)
  have m: "map (\<lambda>r. if eq_id (model ''id'') r then assign (model(''id'' := None)) r else r)
             (table w) = table w"
    using assms(3) by (simp add: map_idI)
  show ?thesis
    using assms(1) assms(2) f m
    by (simp add: update_def db_update_returning_def db_update_def)
qed

lemma update_fileSize_unchecked:
  "\<exists>r w'. update [''id'' \<mapsto> JNum 1, ''fileSize'' \<mapsto> JStr ''abc''] world1 = (Inr (Some r), w')
      \<and> r ''fileSize'' = Some (JStr ''abc'')"
  by (simp add: update_def validateUpdate_def world1_def row1_def db_update_returning_def
        db_update_def eq_id_def Let_def assign_def map_add_def restrict_map_def
        Media_columns_def)

text \<open>
  C4. The request \<open>PUT /media/1\<close> with the body \<open>{"width": "abc"}\<close>: \<open>update\<close> stops in
  \<open>validateUpdate\<close> with a plain \<open>Error\<close>, not a \<open>ValidationError\<close>, so the error handler
  answers with status 500 where the specification has 400.
\<close>

theorem update_wrong_type_status:
  "update [''id'' \<mapsto> JNum 1, ''width'' \<mapsto> JStr ''abc''] world1
     = (Inl (Error ''Width must be a number''), world1)
   \<and> put_media ''ts'' ''1'' [''width'' \<mapsto> JStr ''abc''] world1
     = (\<lparr>status = 500,
         body = \<lparr>data = PNull, code = 500, msg = Some ''Width must be a number''\<rparr>\<rparr>, world1)"
  by (simp add: put_media_def parseInt_def is_space_def is_digit_def digit_value_def
        createOrUpdate_def update_def validateUpdate_def sendApiResponse_def map_add_def)

text \<open>
  C5. \<open>update\<close> of the stored row 1 with \<open>{"id": 1, "width": 10}\<close> succeeds and changes
  the width only: \<open>updatedAt\<close> is the same text before and after, where the
  specification has it updated. The statement assigns what the caller sent and nothing else.
\<close>

theorem update_keeps_updatedAt:
  "update [''id'' \<mapsto> JNum 1, ''width'' \<mapsto> JNum 10] world1
     = (Inr (Some (row1(''width'' \<mapsto> JNum 10))), world1\<lparr>table := [row1(''width'' \<mapsto> JNum 10)]\<rparr>)
   \<and> (row1(''width'' \<mapsto> JNum 10)) ''updatedAt'' = Some (JStr ''t0'')
   \<and> row1 ''updatedAt'' = Some (JStr ''t0'')"
proof -
  have a: "assign ([''id'' \<mapsto> JNum 1, ''width'' \<mapsto> JNum 10](''id'' := None)) row1
             = row1(''width'' \<mapsto> JNum 10)"
    by (rule ext) (simp add: assign_def map_add_def restrict_map_def Media_columns_def)
  have b: "row1 ''id'' = Some (JNum 1)" "row1 ''updatedAt'' = Some (JStr ''t0'')"
    by (simp_all add: row1_def)
  show ?thesis
    using a b
    by (simp add: update_def validateUpdate_def world1_def db_update_returning_def
          db_update_def eq_id_def Let_def Media_columns_def)
qed

section \<open>Upload\<close>

text \<open>
  A part whose MIME type does not start with \<open>image/\<close> never reaches the storage: the
  world is as before, and the error that goes to the handler is a plain \<open>Error\<close>.
\<close>

lemma post_media_not_image:
  assumes "\<not> startsWith (mimetype file) ''image/''"
  shows "post_media dn rnd isz n1 n2 ts (Some (file, content)) w
           = (errorHandler (Error ''Only image files are allowed''), w)"
  using assms by (simp add: post_media_def upload_single_def fileFilter_def)

text \<open>
  C6. Uploading \<open>a.txt\<close> declared as \<open>text/plain\<close>: nothing is written under \<open>./uploads\<close>,
  as specified, but the file filter rejects it with a plain \<open>Error\<close>, so the answer has
  status 500 where the specification has a \<open>ValidationError\<close> and 400.
\<close>

theorem upload_not_image_status:
  "post_media 17 4 (\<lambda>b. Inl (Error ''unsupported file type'')) ''t1'' ''t2'' ''ts''
     (Some (\<lparr>originalname = ''a.txt'', mimetype = ''text/plain''\<rparr>, ''hello'')) world1
     = (\<lparr>status = 500,
         body = \<lparr>data = PNull, code = 500, msg = Some ''Only image files are allowed''\<rparr>\<rparr>,
        world1)"
  by (simp add: post_media_def upload_single_def fileFilter_def startsWith_def
        sendApiResponse_def)

section \<open>Hard delete\<close>

lemma remove_unfold:
  "remove fault i w =
     (case List.find (\<lambda>r. r ''id'' = Some (JNum i)) (table w) of
        None \<Rightarrow> (Inl (NotFoundError ''Media not found''), w)
      | Some r \<Rightarrow>
          let deleteResult =
                \<lparr>rowsAffected = length (filter (\<lambda>r. r ''id'' = Some (JNum i)) (table w))\<rparr>;
              w1 = w\<lparr>table := filter (\<lambda>r. r ''id'' \<noteq> Some (JNum i)) (table w)\<rparr>
          in (case path_join_uploads (r ''storedFileName'') of
                Inl e \<Rightarrow> (Inl e, w1)
              | Inr filePath \<Rightarrow>
                  (case fs_unlink fault filePath (uploads w1) of
                     Inr files \<Rightarrow> (Inr deleteResult, w1\<lparr>uploads := files\<rparr>)
                   | Inl c \<Rightarrow>
                       if c \<noteq> ''ENOENT''
                       then (Inr deleteResult,
                             w1\<lparr>console := console w1 @ [''Failed to delete file: '' @ filePath]\<rparr>)
                       else (Inr deleteResult, w1))))"
  unfolding remove_def first_take_select eq_id_num db_delete_def db_delete_result_def
  by (rule refl)

lemma find_Some_filter_pos:
  "List.find P xs = Some r \<Longrightarrow> 0 < length (filter P xs)"
  by (induction xs) (auto split: if_splits)

text \<open>
  C9. \<open>remove\<close> of an identifier that no row has throws \<open>NotFoundError\<close> and changes
  nothing. When a row is found (its \<open>storedFileName\<close> a string, as the text column of
  the schema holds), every row with that identifier leaves the table and the call returns
  the driver's result with at least one affected row, whatever happens to the file at
  the path that \<open>path.join\<close> makes of \<open>./uploads\<close> and the stored name: it is unlinked
  when it is there, a missing file changes nothing, and any other failure only adds a
  line to the console. The route \<open>DELETE /media/:id\<close> then answers 200
  \<open>Media deleted\<close>.
\<close>

theorem remove_spec:
  "(\<not> (\<exists>r \<in> set (table w). r ''id'' = Some (JNum i)) \<longrightarrow>
      remove fault i w = (Inl (NotFoundError ''Media not found''), w))
   \<and> (\<forall>r name. List.find (\<lambda>r. r ''id'' = Some (JNum i)) (table w) = Some r
            \<and> r ''storedFileName'' = Some (JStr name) \<longrightarrow>
      (\<exists>n w'. remove fault i w = (Inr \<lparr>rowsAffected = n\<rparr>, w') \<and> 0 < n
         \<and> table w' = filter (\<lambda>x. x ''id'' \<noteq> Some (JNum i)) (table w)
         \<and> \<not> (\<exists>x \<in> set (table w'). x ''id'' = Some (JNum i))
         \<and> uploads w' = (if fault = None then (uploads w)(path_join ''./uploads'' name := None)
                          else uploads w)
         \<and> console w' = (if fault = None \<or> fault = Some ''ENOENT'' then console w
                          else console w @ [''Failed to delete file: '' @ path_join ''./uploads'' name])
         \<and> (\<forall>idParam. parseInt idParam = Some i \<longrightarrow>
               delete_media fault idParam w
                 = (\<lparr>status = 200,
                     body = \<lparr>data = PNull, code = 200, msg = Some ''Media deleted''\<rparr>\<rparr>, w'))))"
proof (intro conjI allI impI)
  assume "\<not> (\<exists>r \<in> set (table w). r ''id'' = Some (JNum i))"
  then have "List.find (\<lambda>r. r ''id'' = Some (JNum i)) (table w) = None"
    by (simp add: find_None_iff)
  then show "remove fault i w = (Inl (NotFoundError ''Media not found''), w)"
    by (simp add: remove_unfold)
next
  fix r name
  assume h: "List.find (\<lambda>r. r ''id'' = Some (JNum i)) (table w) = Some r
             \<and> r ''storedFileName'' = Some (JStr name)"
  let ?n = "length (filter (\<lambda>r. r ''id'' = Some (JNum i)) (table w))"
  let ?w1 = "w\<lparr>table := filter (\<lambda>r. r ''id'' \<noteq> Some (JNum i)) (table w)\<rparr>"
  let ?p = "path_join ''./uploads'' name"
  let ?w' = "?w1\<lparr>uploads := (if fault = None then (uploads w)(?p := None) else uploads w),
                 console := (if fault = None \<or> fault = Some ''ENOENT'' then console w
                             else console w @ [''Failed to delete file: '' @ path_join ''./uploads'' name])\<rparr>"
  have pos: "0 < ?n"
    using h find_Some_filter_pos [of "\<lambda>r. r ''id'' = Some (JNum i)" "table w" r] by blast
  have gone: "(uploads w ?p = None) \<Longrightarrow> (uploads w)(?p := None) = uploads w"
    by (rule ext) simp
  have rm: "remove fault i w = (Inr \<lparr>rowsAffected = ?n\<rparr>, ?w')"
    using h gone
    by (cases fault) (auto simp: remove_unfold path_join_uploads_def fs_unlink_def Let_def)
  have route: "\<forall>idParam. parseInt idParam = Some i \<longrightarrow>
               delete_media fault idParam w
                 = (\<lparr>status = 200,
                     body = \<lparr>data = PNull, code = 200, msg = Some ''Media deleted''\<rparr>\<rparr>, ?w')"
    using rm pos by (simp add: delete_media_def sendApiResponse_def)
  show "\<exists>n w'. remove fault i w = (Inr \<lparr>rowsAffected = n\<rparr>, w') \<and> 0 < n
         \<and> table w' = filter (\<lambda>x. x ''id'' \<noteq> Some (JNum i)) (table w)
         \<and> \<not> (\<exists>x \<in> set (table w'). x ''id'' = Some (JNum i))
         \<and> uploads w' = (if fault = None then (uploads w)(path_join ''./uploads'' name := None)
                          else uploads w)
         \<and> console w' = (if fault = None \<or> fault = Some ''ENOENT'' then console w
                          else console w @ [''Failed to delete file: '' @ path_join ''./uploads'' name])
         \<and> (\<forall>idParam. parseInt idParam = Some i \<longrightarrow>
               delete_media fault idParam w
                 = (\<lparr>status = 200,
                     body = \<lparr>data = PNull, code = 200, msg = Some ''Media deleted''\<rparr>\<rparr>, w'))"
    using rm pos route
    by (intro exI [of _ ?n] exI [of _ ?w']) simp
qed

lemma parseInt_1: "parseInt ''1'' = Some 1"
  by (simp add: parseInt_def is_space_def is_digit_def digit_value_def)

text \<open>
  The stored name decides the file: a generated name stays below \<open>uploads\<close>, a name
  with \<open>..\<close> in it is resolved first, and the empty name gives the directory itself.
\<close>

lemma path_join_plain: "path_join ''./uploads'' ''17-4.png'' = ''uploads/17-4.png''"
  by (simp add: path_join_def normalize_def)

lemma path_join_dotdot: "path_join ''./uploads'' ''x/../17-4.png'' = ''uploads/17-4.png''"
  by (simp add: path_join_def normalize_def)

lemma path_join_outside: "path_join ''./uploads'' ''../index.ts'' = ''index.ts''"
  by (simp add: path_join_def normalize_def)

lemma path_join_empty: "path_join ''./uploads'' [] = ''uploads''"
  by (simp add: path_join_def normalize_def)

theorem remove_spec_witness:
  "remove (Some ''EACCES'') 2 world1 = (Inl (NotFoundError ''Media not found''), world1)
   \<and> (\<exists>n w'. remove (Some ''EACCES'') 1 world1 = (Inr \<lparr>rowsAffected = n\<rparr>, w') \<and> 0 < n
         \<and> table w' = []
         \<and> uploads w' = uploads world1
         \<and> console w' = [''Failed to delete file: uploads/17-4.png'']
         \<and> delete_media (Some ''EACCES'') ''1'' world1
             = (\<lparr>status = 200,
                 body = \<lparr>data = PNull, code = 200, msg = Some ''Media deleted''\<rparr>\<rparr>, w'))"
proof -
  have a: "\<not> (\<exists>r \<in> set (table world1). r ''id'' = Some (JNum 2))"
    by (simp add: world1_def row1_def)
  have c: "List.find (\<lambda>r. r ''id'' = Some (JNum 1)) (table world1) = Some row1
           \<and> row1 ''storedFileName'' = Some (JStr ''17-4.png'')"
    by (simp add: world1_def row1_def)
  have d: "filter (\<lambda>x. x ''id'' \<noteq> Some (JNum 1)) (table world1) = []"
    by (simp add: world1_def row1_def)
  have k: "console world1 = []"
    by (simp add: world1_def)
  have nf: "remove (Some ''EACCES'') 2 world1 = (Inl (NotFoundError ''Media not found''), world1)"
    using remove_spec [of world1 2 "Some ''EACCES''"] a by blast
  obtain n w' where f: "remove (Some ''EACCES'') 1 world1 = (Inr \<lparr>rowsAffected = n\<rparr>, w')"
      "0 < n"
      "table w' = filter (\<lambda>x. x ''id'' \<noteq> Some (JNum 1)) (table world1)"
      "uploads w' = (if Some ''EACCES'' = (None :: string option)
                     then (uploads world1)(path_join ''./uploads'' ''17-4.png'' := None)
                     else uploads world1)"
      "console w' = (if Some ''EACCES'' = (None :: string option) \<or> Some ''EACCES'' = Some ''ENOENT''
                     then console world1
                     else console world1
                            @ [''Failed to delete file: '' @ path_join ''./uploads'' ''17-4.png''])"
      "\<forall>idParam. parseInt idParam = Some 1 \<longrightarrow>
               delete_media (Some ''EACCES'') idParam world1
                 = (\<lparr>status = 200,
                     body = \<lparr>data = PNull, code = 200, msg = Some ''Media deleted''\<rparr>\<rparr>, w')"
    using remove_spec [of world1 1 "Some ''EACCES''"] c by blast
  show ?thesis
    using nf f parseInt_1 by (simp add: d k path_join_plain)
qed

section \<open>The merged create-or-update\<close>

lemma validateCreate_Error: "validateCreate d = Inl e \<Longrightarrow> \<exists>m. e = Error m"
  by (auto simp: validateCreate_def split: if_splits)

lemma db_insert_cases:
  "(\<exists>m. db_insert ts v w = (Inl (Error m), w)) \<or> (\<exists>row w'. db_insert ts v w = (Inr [row], w'))"
  by (simp add: db_insert_def Let_def)

lemma create_cases:
  "(\<exists>m w'. create ts model w = (Inl (Error m), w'))
   \<or> (\<exists>row w'. create ts model w = (Inr (Some row), w'))"
proof (cases "validateCreate model")
  case (Inl e)
  then show ?thesis
    using validateCreate_Error [OF Inl] by (auto simp: create_def)
next
  case (Inr u)
  then show ?thesis
    using db_insert_cases [of ts model w] by (auto simp: create_def)
qed

lemma put_media_zero:
  assumes "parseInt idParam = Some 0" and "updates ''id'' = None"
  shows "status (fst (put_media ts idParam updates w)) \<noteq> 404
         \<and> snd (put_media ts idParam updates w)
             = snd (create ts ([''id'' \<mapsto> JNum 0] ++ updates) w)"
proof -
  let ?model = "[''id'' \<mapsto> JNum 0] ++ updates"
  have id0: "?model ''id'' = Some (JNum 0)"
    using assms(2) by (simp add: map_add_def)
  then have disp: "createOrUpdate ts ?model w = create ts ?model w"
    by (simp add: createOrUpdate_def)
  from create_cases [of ts ?model w] show ?thesis
  proof
    assume "\<exists>m w'. create ts ?model w = (Inl (Error m), w')"
    then show ?thesis
      using assms(1) disp by (auto simp: put_media_def sendApiResponse_def)
  next
    assume "\<exists>row w'. create ts ?model w = (Inr (Some row), w')"
    then show ?thesis
      using assms(1) disp by (auto simp: put_media_def sendApiResponse_def)
  qed
qed

text \<open>
  C10. A model whose \<open>id\<close> is the number 0 is falsy under \<open>if (model.id)\<close>, so
  \<open>createOrUpdate\<close> is \<open>create\<close> on it and never ends in \<open>NotFoundError\<close>. For the
  route: \<open>PUT /media/0\<close> with a body that has no \<open>id\<close> of its own leaves the world as
  \<open>create\<close> leaves it and never answers 404.
\<close>

theorem createOrUpdate_id_zero:
  "(model ''id'' = Some (JNum 0) \<longrightarrow>
      createOrUpdate ts model w = create ts model w
      \<and> (\<forall>m. fst (createOrUpdate ts model w) \<noteq> Inl (NotFoundError m)))
   \<and> (parseInt idParam = Some 0 \<and> updates ''id'' = None \<longrightarrow>
      status (fst (put_media ts idParam updates w)) \<noteq> 404
      \<and> snd (put_media ts idParam updates w)
          = snd (create ts ([''id'' \<mapsto> JNum 0] ++ updates) w))"
proof (intro conjI impI)
  assume id0: "model ''id'' = Some (JNum 0)"
  then show disp: "createOrUpdate ts model w = create ts model w"
    by (simp add: createOrUpdate_def)
  show "\<forall>m. fst (createOrUpdate ts model w) \<noteq> Inl (NotFoundError m)"
    using create_cases [of ts model w] disp by auto
next
  assume "parseInt idParam = Some 0 \<and> updates ''id'' = None"
  then show "status (fst (put_media ts idParam updates w)) \<noteq> 404"
    and "snd (put_media ts idParam updates w)
          = snd (create ts ([''id'' \<mapsto> JNum 0] ++ updates) w)"
    using put_media_zero by blast+
qed

lemma parseInt_0: "parseInt ''0'' = Some 0"
  by (simp add: parseInt_def is_space_def is_digit_def digit_value_def)

lemma validateCreate_body1: "validateCreate ([''id'' \<mapsto> JNum 0] ++ body1) = Inr ()"
  by (simp add: validateCreate_def body1_def map_add_def)

lemma insert_body1:
  "\<exists>row w'. db_insert ''ts'' ([''id'' \<mapsto> JNum 0] ++ body1) world1 = (Inr [row], w')
      \<and> row ''id'' = Some (JNum 0) \<and> row ''createdAt'' = Some (JStr ''ts'')
      \<and> table w' = [row, row1]"
  by (simp add: db_insert_def body1_def world1_def row1_def Let_def is_null_def id_below_def
        Media_columns_def notNull_columns_def map_add_def restrict_map_def)

theorem createOrUpdate_id_zero_witness:
  "createOrUpdate ''ts'' ([''id'' \<mapsto> JNum 0] ++ body1) world1
     = create ''ts'' ([''id'' \<mapsto> JNum 0] ++ body1) world1
   \<and> (\<exists>row w'. create ''ts'' ([''id'' \<mapsto> JNum 0] ++ body1) world1 = (Inr (Some row), w')
         \<and> row ''id'' = Some (JNum 0) \<and> table w' = [row, row1])
   \<and> update ([''id'' \<mapsto> JNum 0] ++ body1) world1
       = (Inl (NotFoundError ''No record found with the provided id''), world1)
   \<and> status (fst (put_media ''ts'' ''0'' body1 world1)) \<noteq> 404"
proof -
  let ?model = "[''id'' \<mapsto> JNum 0] ++ body1"
  have a: "?model ''id'' = Some (JNum 0)"
    by (simp add: body1_def map_add_def)
  have b: "validateUpdate ?model = Inr ()"
    by (simp add: validateUpdate_def body1_def map_add_def)
  have nr: "\<not> (\<exists>r \<in> set (table world1). eq_id (?model ''id'') r)"
    using a by (simp add: eq_id_num world1_def row1_def)
  have ne: "\<not> list_all (\<lambda>c. (?model(''id'' := None)) c = None) Media_columns"
    by (simp add: Media_columns_def body1_def map_add_def)
  from b ne nr have c: "update ?model world1
                  = (Inl (NotFoundError ''No record found with the provided id''), world1)"
    by (rule update_not_found)
  have d: "body1 ''id'' = None"
    by (simp add: body1_def)
  have e: "\<exists>row w'. create ''ts'' ?model world1 = (Inr (Some row), w')
         \<and> row ''id'' = Some (JNum 0) \<and> table w' = [row, row1]"
    using insert_body1 validateCreate_body1 by (auto simp: create_def)
  from createOrUpdate_id_zero [of ?model "''ts''" world1 "''0''" body1] a b c d e parseInt_0
  show ?thesis by simp
qed

end
